theory Spec2Isabelle
  imports Main
begin

section \<open>Exams and JavaScript dates\<close>

text \<open>
  An exam as the routes and the components read it: \<open>exam.id\<close>, \<open>exam.subject\<close>,
  \<open>exam.date\<close> (a string) and \<open>exam.topics\<close>. The field \<open>id\<close> is named
  \<open>exam_id\<close> here, since \<open>id\<close> is the identity function of HOL.
\<close>

record exam =
  exam_id :: int
  subject :: string
  date :: string
  topics :: "string list"

text \<open>
  A JavaScript \<open>Date\<close> holds a time value: the milliseconds since the epoch in UTC, or
  NaN for an Invalid Date. \<open>None\<close> is the Invalid Date.

  The fields of a \<open>Date\<close> that \<open>setHours\<close>, \<open>getDate\<close> and the date-fns functions read
  are the fields in the time zone of the host. The host zone is a parameter \<open>host\<close> of
  every function that depends on it: the offset of the host's local time from UTC in
  milliseconds, the same at every instant (a zone without daylight-saving changes).
\<close>

type_synonym jsdate = "int option"

definition MILLISECONDS_IN_HOUR :: int where
  "MILLISECONDS_IN_HOUR = 3600000"

definition MILLISECONDS_IN_DAY :: int where
  "MILLISECONDS_IN_DAY = 86400000"

subsection \<open>parseISO of date-fns, on calendar dates\<close>

text \<open>
  \<open>parseISO\<close> is a function of the date-fns library. The model covers the extended
  calendar-date form \<open>YYYY-MM-DD\<close>, which is what the date input of the add-exam form
  produces and what the data model stores. The library checks the month and the day of
  the month (\<open>validateDate\<close>, with \<open>isLeapYearIndex\<close>), and returns an Invalid Date, never
  an exception, for a string it cannot read. Every string that is not of the form
  \<open>YYYY-MM-DD\<close> is an Invalid Date in this model; the other ISO 8601 forms of the library
  (a time of day, week dates, ordinal dates) are not modelled.
\<close>

definition digit :: "char \<Rightarrow> int option" where
  "digit c = (let n = (of_char c :: nat) in
     if 48 \<le> n \<and> n \<le> 57 then Some (int n - 48) else None)"

definition number2 :: "char \<Rightarrow> char \<Rightarrow> int option" where
  "number2 a b = (case (digit a, digit b) of
     (Some x, Some y) \<Rightarrow> Some (10 * x + y) | _ \<Rightarrow> None)"

definition number4 :: "char \<Rightarrow> char \<Rightarrow> char \<Rightarrow> char \<Rightarrow> int option" where
  "number4 a b c d = (case (number2 a b, number2 c d) of
     (Some x, Some y) \<Rightarrow> Some (100 * x + y) | _ \<Rightarrow> None)"

definition isLeapYearIndex :: "int \<Rightarrow> bool" where
  "isLeapYearIndex year = (year mod 400 = 0 \<or> (year mod 4 = 0 \<and> year mod 100 \<noteq> 0))"

text \<open>\<open>DAYS_IN_MONTH\<close>, by month index from 0; the entry of February is \<open>null\<close> in the
  library and the leap year decides.\<close>

definition daysInMonth :: "int \<Rightarrow> int \<Rightarrow> int" where
  "daysInMonth year month =
     (if month = 1 then (if isLeapYearIndex year then 29 else 28)
      else if month \<in> {3, 5, 8, 10} then 30 else 31)"

definition validateDate :: "int \<Rightarrow> int \<Rightarrow> int \<Rightarrow> bool" where
  "validateDate year month day =
     (0 \<le> month \<and> month \<le> 11 \<and> 1 \<le> day \<and> day \<le> daysInMonth year month)"

text \<open>The number of days from 1970-01-01 to the civil date \<open>y-m-d\<close> (month from 1) in
  the proleptic Gregorian calendar: what \<open>setUTCFullYear(year, month, day)\<close> on
  \<open>new Date(0)\<close> yields, divided by the length of a day.\<close>

definition daysFromCivil :: "int \<Rightarrow> int \<Rightarrow> int \<Rightarrow> int" where
  "daysFromCivil y m d =
     (let y' = (if m \<le> 2 then y - 1 else y);
          era = y' div 400;
          yoe = y' - era * 400;
          doy = (153 * (if m > 2 then m - 3 else m + 9) + 2) div 5 + d - 1;
          doe = yoe * 365 + yoe div 4 - yoe div 100 + doy
      in era * 146097 + doe - 719468)"

text \<open>The calendar date of a string \<open>YYYY-MM-DD\<close>, as its day number.\<close>

fun parseCalendarDate :: "string \<Rightarrow> int option" where
  "parseCalendarDate [y1, y2, y3, y4, h1, m1, m2, h2, d1, d2] =
     (if h1 = CHR ''-'' \<and> h2 = CHR ''-'' then
        (case (number4 y1 y2 y3 y4, number2 m1 m2, number2 d1 d2) of
           (Some year, Some month, Some day) \<Rightarrow>
             if validateDate year (month - 1) day
             then Some (daysFromCivil year month day) else None
         | _ \<Rightarrow> None)
      else None)"
| "parseCalendarDate _ = None"

declare parseCalendarDate.simps [simp del]

text \<open>A string without a time zone is read in the zone of the host: the result is the
  host's midnight at the start of that calendar date.\<close>

definition parseISO :: "int \<Rightarrow> string \<Rightarrow> jsdate" where
  "parseISO host s = (case parseCalendarDate s of
     None \<Rightarrow> None
   | Some D \<Rightarrow> Some (D * MILLISECONDS_IN_DAY - host))"

subsection \<open>setHours, isBefore, utcToZonedTime\<close>

text \<open>\<open>setHours(date, hours)\<close> calls \<open>Date.prototype.setHours(hours)\<close>: the hour of the
  host's local time is replaced, the local calendar date and the minutes, seconds and
  milliseconds stay. An Invalid Date stays invalid.\<close>

definition setHours :: "int \<Rightarrow> jsdate \<Rightarrow> int \<Rightarrow> jsdate" where
  "setHours host d hours = (case d of
     None \<Rightarrow> None
   | Some t \<Rightarrow>
       (let local = t + host
        in Some ((local div MILLISECONDS_IN_DAY) * MILLISECONDS_IN_DAY
                 + hours * MILLISECONDS_IN_HOUR
                 + local mod MILLISECONDS_IN_HOUR - host)))"

text \<open>\<open>isBefore(date, dateToCompare)\<close> is \<open>date.getTime() < dateToCompare.getTime()\<close>; a
  comparison with NaN is false.\<close>

definition isBefore :: "jsdate \<Rightarrow> jsdate \<Rightarrow> bool" where
  "isBefore d c = (case (d, c) of (Some x, Some y) \<Rightarrow> x < y | _ \<Rightarrow> False)"

text \<open>The zone \<open>'Asia/Riyadh'\<close> is three hours ahead of UTC in every season.\<close>

definition saudiArabiaTimeZone :: int where
  "saudiArabiaTimeZone = 3 * MILLISECONDS_IN_HOUR"

text \<open>\<open>utcToZonedTime(date, timeZone)\<close> of date-fns-tz returns a \<open>Date\<close> whose local
  fields, read in the zone of the host, show the wall clock of \<open>timeZone\<close> at the
  instant \<open>date\<close>. The zone is given by its offset from UTC.\<close>

definition utcToZonedTime :: "int \<Rightarrow> jsdate \<Rightarrow> int \<Rightarrow> jsdate" where
  "utcToZonedTime host d zone = (case d of
     None \<Rightarrow> None
   | Some t \<Rightarrow> Some (t + zone - host))"

section \<open>The expiry test of deleteExpiredExams\<close>

text \<open>
  The body of the loop of \<open>deleteExpiredExams\<close> up to its condition, with the reading
  \<open>now\<close> of the clock (\<open>new Date()\<close>, never invalid) as a parameter:
  \<^verbatim>\<open>
  const examDate = parseISO(exam.date);
  const examDateTime = setHours(examDate, 10);
  const currentTimeUTC = new Date();
  const currentTimeSaudiArabia = utcToZonedTime(currentTimeUTC, 'Asia/Riyadh');
  if (isBefore(examDateTime, currentTimeSaudiArabia)) ...
  \<close>
\<close>

definition examExpired :: "int \<Rightarrow> int \<Rightarrow> exam \<Rightarrow> bool" where
  "examExpired host now e =
     (let examDate = parseISO host (date e);
          examDateTime = setHours host examDate 10;
          currentTimeUTC = Some now;
          currentTimeSaudiArabia = utcToZonedTime host currentTimeUTC saudiArabiaTimeZone
      in isBefore examDateTime currentTimeSaudiArabia)"

subsection \<open>The words of the specification\<close>

text \<open>The instant, in milliseconds since the epoch, at which the wall clock of the fixed
  zone shows 10:00 on the calendar day \<open>D\<close>; and the calendar day and the time of day
  that the wall clock of the fixed zone shows at an instant.\<close>

definition spec_cutoff_instant :: "int \<Rightarrow> int" where
  "spec_cutoff_instant D =
     D * MILLISECONDS_IN_DAY + 10 * MILLISECONDS_IN_HOUR - saudiArabiaTimeZone"

definition riyadhDay :: "int \<Rightarrow> int" where
  "riyadhDay now = (now + saudiArabiaTimeZone) div MILLISECONDS_IN_DAY"

definition riyadhTimeOfDay :: "int \<Rightarrow> int" where
  "riyadhTimeOfDay now = (now + saudiArabiaTimeZone) mod MILLISECONDS_IN_DAY"

section \<open>The exam store\<close>

text \<open>
  Modelled from the spec: the module \<open>./storage\<close> (the object \<open>storage\<close> with
  \<open>getExams\<close>, \<open>deleteExam\<close> and \<open>createExam\<close>) is not among the sources. The spec
  gives its interface: \<open>listExams\<close> returns the sequence of exams and fails with a
  \<open>StoreError\<close> on an I/O failure; \<open>deleteExam(id)\<close> returns true if a record existed
  and was removed and fails with a \<open>StoreError\<close> on an I/O failure; \<open>create(data)\<close>
  returns the exam, with an identifier assigned by the store. Which calls fail is part
  of the state of the store: the flag \<open>list_fails\<close>, the identifiers \<open>delete_fails\<close>
  whose deletion fails, the flag \<open>create_fails\<close>.
\<close>

datatype error = StoreError

record store =
  exams :: "exam list"
  next_id :: int
  list_fails :: bool
  delete_fails :: "int list"
  create_fails :: bool

record examData =
  data_subject :: string
  data_date :: string
  data_topics :: "string list"

definition getExams :: "store \<Rightarrow> error + exam list" where
  "getExams st = (if list_fails st then Inl StoreError else Inr (exams st))"

definition deleteExam :: "int \<Rightarrow> store \<Rightarrow> error + (bool \<times> store)" where
  "deleteExam i st =
     (if i \<in> set (delete_fails st) then Inl StoreError
      else Inr (list_ex (\<lambda>e. exam_id e = i) (exams st),
                st\<lparr>exams := filter (\<lambda>e. exam_id e \<noteq> i) (exams st)\<rparr>))"

definition createExam :: "examData \<Rightarrow> store \<Rightarrow> error + (exam \<times> store)" where
  "createExam d st =
     (if create_fails st then Inl StoreError
      else (let e = \<lparr>exam_id = next_id st, subject = data_subject d,
                      date = data_date d, topics = data_topics d\<rparr>
            in Inr (e, st\<lparr>exams := exams st @ [e], next_id := next_id st + 1\<rparr>)))"

section \<open>deleteExpiredExams\<close>

text \<open>
  What the run writes to the console: \<open>console.log\<close> after a call of \<open>deleteExam\<close>
  that returned, \<open>console.error\<close> in the handler of the one \<open>try\<close> block around the
  whole body.
\<close>

datatype log = DeletedAutomatically int | ErrorDeletingExpiredExams error

text \<open>
  The \<open>for\<close> loop over the fetched list. The clock is read in every iteration
  (\<open>new Date()\<close> inside the loop): \<open>clock k\<close> is the reading in iteration \<open>k\<close>. The
  result is the store, the lines logged by the loop, and the exception that left the
  loop, if any: an exception of \<open>deleteExam\<close> is not caught inside the loop, so the
  exams after it are not visited. The value that \<open>deleteExam\<close> returns is not read.
\<close>

fun forExams ::
  "int \<Rightarrow> (nat \<Rightarrow> int) \<Rightarrow> nat \<Rightarrow> exam list \<Rightarrow> store \<Rightarrow> store \<times> log list \<times> error option"
where
  "forExams host clock k [] st = (st, [], None)"
| "forExams host clock k (e # es) st =
     (if examExpired host (clock k) e then
        (case deleteExam (exam_id e) st of
           Inl err \<Rightarrow> (st, [], Some err)
         | Inr (existed, st') \<Rightarrow>
             (case forExams host clock (Suc k) es st' of
                (st'', lg, r) \<Rightarrow> (st'', DeletedAutomatically (exam_id e) # lg, r)))
      else forExams host clock (Suc k) es st)"

definition deleteExpiredExams :: "int \<Rightarrow> (nat \<Rightarrow> int) \<Rightarrow> store \<Rightarrow> store \<times> log list" where
  "deleteExpiredExams host clock st =
     (case getExams st of
        Inl err \<Rightarrow> (st, [ErrorDeletingExpiredExams err])
      | Inr xs \<Rightarrow>
          (case forExams host clock 0 xs st of
             (st', lg, None) \<Rightarrow> (st', lg)
           | (st', lg, Some err) \<Rightarrow> (st', lg @ [ErrorDeletingExpiredExams err])))"

text \<open>A clock that shows the same instant at every reading: a run at a fixed "now".\<close>

definition fixedClock :: "int \<Rightarrow> nat \<Rightarrow> int" where
  "fixedClock now k = now"

text \<open>A list of exams is quiet at \<open>now\<close> when its first expired exam, if it has one, is
  an exam whose deletion fails: a run over such a list deletes nothing.\<close>

fun quiet :: "int \<Rightarrow> int \<Rightarrow> int list \<Rightarrow> exam list \<Rightarrow> bool" where
  "quiet host now fl [] = True"
| "quiet host now fl (e # es) =
     (if examExpired host now e then exam_id e \<in> set fl else quiet host now fl es)"

text \<open>The identifiers for which a run logged a deletion.\<close>

fun deletedIds :: "log list \<Rightarrow> int list" where
  "deletedIds [] = []"
| "deletedIds (DeletedAutomatically i # lg) = i # deletedIds lg"
| "deletedIds (ErrorDeletingExpiredExams err # lg) = deletedIds lg"

section \<open>The reaper's timer\<close>

text \<open>
  \<open>registerRoutes\<close> does not call \<open>deleteExpiredExams\<close>; it arms a repeating timer,
  \<open>setInterval(deleteExpiredExams, 24 * 60 * 60 * 1000)\<close>. The process is modelled in
  steps of one millisecond. Its state is the timer (the delay, and what remains of it),
  the milliseconds since \<open>registerRoutes\<close> ran (\<open>uptime\<close>), the store (\<open>db\<close>), and
  the uptimes at which the timer has called \<open>deleteExpiredExams\<close> so far (\<open>calls\<close>).
  When the delay has passed, the timer calls \<open>deleteExpiredExams\<close> on the store and
  starts over; the run is taken to last less than a millisecond, so every reading of the
  clock in it shows the instant of the call, \<open>started\<close> plus the uptime.
\<close>

definition sweepInterval :: nat where
  "sweepInterval = 24 * 60 * 60 * 1000"

record process =
  delay :: nat
  remaining :: nat
  uptime :: nat
  db :: store
  calls :: "nat list"

definition setInterval :: "nat \<Rightarrow> store \<Rightarrow> process" where
  "setInterval ms st = \<lparr>delay = ms, remaining = ms, uptime = 0, db = st, calls = []\<rparr>"

definition startReaper :: "store \<Rightarrow> process" where
  "startReaper st = setInterval sweepInterval st"

text \<open>The store after the call of \<open>deleteExpiredExams\<close> at the uptime \<open>u\<close>.\<close>

definition sweepAt :: "int \<Rightarrow> int \<Rightarrow> store \<Rightarrow> nat \<Rightarrow> store" where
  "sweepAt host started st u =
     fst (deleteExpiredExams host (fixedClock (started + int u)) st)"

definition tick :: "int \<Rightarrow> int \<Rightarrow> process \<Rightarrow> process" where
  "tick host started p =
     (let u = uptime p + 1
      in if remaining p \<le> 1
         then p\<lparr>remaining := delay p, uptime := u,
                 db := sweepAt host started (db p) u, calls := calls p @ [u]\<rparr>
         else p\<lparr>remaining := remaining p - 1, uptime := u\<rparr>)"

primrec elapse :: "int \<Rightarrow> int \<Rightarrow> nat \<Rightarrow> process \<Rightarrow> process" where
  "elapse host started 0 p = p"
| "elapse host started (Suc n) p = tick host started (elapse host started n p)"

section \<open>The remaining days of the exam list\<close>

text \<open>
  \<open>differenceInDays\<close> of date-fns, the number of full days between two dates, read in
  the zone of the host:
  \<^verbatim>\<open>
  const sign = compareLocalAsc(dateLeft, dateRight)
  const difference = Math.abs(differenceInCalendarDays(dateLeft, dateRight))
  dateLeft.setDate(dateLeft.getDate() - sign * difference)
  const isLastDayNotFull = Number(compareLocalAsc(dateLeft, dateRight) === -sign)
  const result = sign * (difference - isLastDayNotFull)
  return result === 0 ? 0 : result
  \<close>
  \<open>compareLocalAsc\<close> compares the local fields from the year down to the millisecond,
  which at a fixed offset is the order of the time values. \<open>setDate\<close> moves the date by
  days of the host's calendar; at the fixed offset of the host, the only hosts of this
  model, a calendar day is 86,400,000 ms, and on a host whose clock changes the library
  may return another number than this definition. With an Invalid Date every
  intermediate value is NaN and the result is NaN (\<open>None\<close>).
\<close>

definition compareLocalAsc :: "int \<Rightarrow> int \<Rightarrow> int" where
  "compareLocalAsc l r = (if l < r then - 1 else if l > r then 1 else 0)"

definition differenceInCalendarDays :: "int \<Rightarrow> int \<Rightarrow> int \<Rightarrow> int" where
  "differenceInCalendarDays host l r =
     (l + host) div MILLISECONDS_IN_DAY - (r + host) div MILLISECONDS_IN_DAY"

definition differenceInDays :: "int \<Rightarrow> jsdate \<Rightarrow> jsdate \<Rightarrow> int option" where
  "differenceInDays host dateLeft dateRight =
     (case (dateLeft, dateRight) of
        (Some l, Some r) \<Rightarrow>
          (let sign = compareLocalAsc l r;
               difference = \<bar>differenceInCalendarDays host l r\<bar>;
               l' = l - sign * difference * MILLISECONDS_IN_DAY;
               isLastDayNotFull = (if compareLocalAsc l' r = - sign then 1 else 0)
           in Some (sign * (difference - isLastDayNotFull)))
      | _ \<Rightarrow> None)"

text \<open>
  \<^verbatim>\<open>
  const calculateRemainingDays = (examDate: string) => {
    const today = new Date();
    const targetDate = parseISO(examDate);
    const days = differenceInDays(targetDate, today);
    return days;
  };
  \<close>
  \<open>now\<close> is the reading of the clock. The result is a JavaScript number: an integer, or
  NaN (\<open>None\<close>).
\<close>

definition calculateRemainingDays :: "int \<Rightarrow> int \<Rightarrow> string \<Rightarrow> int option" where
  "calculateRemainingDays host now examDate =
     (let today = Some now;
          targetDate = parseISO host examDate;
          days = differenceInDays host targetDate today
      in days)"

text \<open>
  The cell of the table:
  \<^verbatim>\<open>
  const date = exam.date ? new Date(exam.date) : null;
  const remainingDays = date ? calculateRemainingDays(exam.date) : null;
  ... {remainingDays && remainingDays > 0 ? `${remainingDays} ...` : '...'}
  \<close>
  A \<open>Date\<close> object is truthy also when it is invalid, so \<open>remainingDays\<close> is \<open>null\<close>
  exactly when \<open>exam.date\<close> is the empty string. The two texts of the cell are Arabic:
  the number followed by the word for "day" (\<open>DaysText\<close>), and the word for "today"
  (\<open>TodayText\<close>).
\<close>

datatype nullable_number = Null | Number "int option"

datatype cell = DaysText int | TodayText

definition remainingDays :: "int \<Rightarrow> int \<Rightarrow> exam \<Rightarrow> nullable_number" where
  "remainingDays host now e =
     (if date e \<noteq> [] then Number (calculateRemainingDays host now (date e)) else Null)"

text \<open>\<open>null\<close>, NaN and 0 are falsy; \<open>NaN > 0\<close> is false.\<close>

definition truthy :: "nullable_number \<Rightarrow> bool" where
  "truthy v = (case v of Null \<Rightarrow> False | Number None \<Rightarrow> False | Number (Some n) \<Rightarrow> n \<noteq> 0)"

definition greaterThanZero :: "nullable_number \<Rightarrow> bool" where
  "greaterThanZero v =
     (case v of Null \<Rightarrow> False | Number None \<Rightarrow> False | Number (Some n) \<Rightarrow> n > 0)"

definition remainingDaysCell :: "nullable_number \<Rightarrow> cell" where
  "remainingDaysCell v =
     (if truthy v \<and> greaterThanZero v
      then (case v of Number (Some n) \<Rightarrow> DaysText n | _ \<Rightarrow> TodayText)
      else TodayText)"

section \<open>Adding an exam\<close>

text \<open>
  \<open>handleSubmit\<close> of the add-exam form, on the three strings of the form's state.
  \<open>addExam\<close> (of the hook \<open>useExams\<close>) is a parameter: whether the call with the given
  data resolves (\<open>True\<close>) or throws. The result is the toast shown and the data with
  which \<open>addExam\<close> was called, if it was. A \<open>char\<close> stands for a code unit below 256.
  \<open>String.prototype.trim\<close> removes the white space and the line terminators of
  ECMAScript from both ends; those below 256 are the code units 9 to 13, 32 and 160 (the
  no-break space).
\<close>

datatype toast = FillAllFields | EnterTopics | AddedSuccessfully | ErrorWhileAdding

definition isWhiteSpace :: "char \<Rightarrow> bool" where
  "isWhiteSpace c = ((of_char c :: nat) \<in> {9, 10, 11, 12, 13, 32, 160})"

definition trim :: "string \<Rightarrow> string" where
  "trim s = rev (dropWhile isWhiteSpace (rev (dropWhile isWhiteSpace s)))"

fun split :: "char \<Rightarrow> string \<Rightarrow> string list" where
  "split sep [] = [[]]"
| "split sep (c # cs) =
     (if c = sep then [] # split sep cs
      else (case split sep cs of
              [] \<Rightarrow> [[c]]
            | l # ls \<Rightarrow> (c # l) # ls))"

definition handleSubmit ::
  "(examData \<Rightarrow> bool) \<Rightarrow> string \<Rightarrow> string \<Rightarrow> string \<Rightarrow> toast \<times> examData option" where
  "handleSubmit addExam subj dat tops =
     (if subj = [] \<or> dat = [] \<or> tops = [] then (FillAllFields, None)
      else
        (let topicsArray = filter (\<lambda>topic. trim topic \<noteq> []) (split (CHR 0x0A) tops)
         in if length topicsArray = 0 then (EnterTopics, None)
            else
              (let d = \<lparr>data_subject = subj, data_date = dat, data_topics = topicsArray\<rparr>
               in if addExam d then (AddedSuccessfully, Some d)
                  else (ErrorWhileAdding, Some d))))"

text \<open>An \<open>addExam\<close> whose request succeeds, whatever the data.\<close>

definition addExamResolves :: "examData \<Rightarrow> bool" where
  "addExamResolves d = True"

text \<open>
  The body of a request to \<open>POST /api/exams\<close>: each of the three fields may be
  missing.
\<close>

record examBody =
  body_subject :: "string option"
  body_date :: "string option"
  body_topics :: "string list option"

text \<open>
  Modelled from the spec: \<open>insertExamSchema\<close> of \<open>@shared/schema\<close> is not among the
  sources. The spec says of the add operation that it is rejected if \<open>subject\<close>, \<open>date\<close>
  or \<open>topics\<close> is missing or empty, and of the entity that \<open>date\<close> is a calendar date
  without a time of day, stored as an ISO 8601 date string, which must parse as a valid
  calendar date. \<open>insertExamSchema.safeParse\<close> yields the data, or \<open>None\<close> when it does
  not succeed.
\<close>

definition insertExamSchema :: "examBody \<Rightarrow> examData option" where
  "insertExamSchema b =
     (case (body_subject b, body_date b, body_topics b) of
        (Some s, Some d, Some ts) \<Rightarrow>
          if s = [] \<or> d = [] \<or> ts = [] \<or> parseCalendarDate d = None then None
          else Some \<lparr>data_subject = s, data_date = d, data_topics = ts\<rparr>
      | _ \<Rightarrow> None)"

text \<open>The handler of \<open>POST /api/exams\<close>: 400 when the schema does not accept the body,
  201 with the created exam, 500 when the store throws.\<close>

datatype response = Status200 | Status201 exam | Status400 | Status404 | Status500

definition postExam :: "examBody \<Rightarrow> store \<Rightarrow> response \<times> store" where
  "postExam b st =
     (case insertExamSchema b of
        None \<Rightarrow> (Status400, st)
      | Some d \<Rightarrow>
          (case createExam d st of
             Inl err \<Rightarrow> (Status500, st)
           | Inr (e, st') \<Rightarrow> (Status201 e, st')))"

text \<open>The handler of \<open>DELETE /api/exams/:id\<close>: 404 when the store reports that no
  record existed, 200 otherwise, 500 when the store throws.\<close>

definition deleteExamRoute :: "int \<Rightarrow> store \<Rightarrow> response \<times> store" where
  "deleteExamRoute i st =
     (case deleteExam i st of
        Inl err \<Rightarrow> (Status500, st)
      | Inr (deleted, st') \<Rightarrow> (if \<not> deleted then Status404 else Status200, st'))"

text \<open>
  The life of the store: the requests that create and delete exams, the runs of the
  reaper (each with its clock), and the changes outside the application of which calls
  of the store fail. \<open>serve\<close> is the store after a sequence of these events.
\<close>

datatype event =
  PostExam examBody
| DeleteExam int
| Reaper "nat \<Rightarrow> int"
| Failures bool "int list" bool

fun handle :: "int \<Rightarrow> event \<Rightarrow> store \<Rightarrow> store" where
  "handle host (PostExam b) st = snd (postExam b st)"
| "handle host (DeleteExam i) st = snd (deleteExamRoute i st)"
| "handle host (Reaper clock) st = fst (deleteExpiredExams host clock st)"
| "handle host (Failures l d c) st =
     st\<lparr>list_fails := l, delete_fails := d, create_fails := c\<rparr>"

fun serve :: "int \<Rightarrow> event list \<Rightarrow> store \<Rightarrow> store" where
  "serve host [] st = st"
| "serve host (ev # evs) st = serve host evs (handle host ev st)"

text \<open>The invariant of the specification for a persisted exam: its list of topics is
  not empty and its date is a calendar date.\<close>

definition persistedOk :: "exam \<Rightarrow> bool" where
  "persistedOk e = (topics e \<noteq> [] \<and> parseCalendarDate (date e) \<noteq> None)"

section \<open>Theorems\<close>

lemma parseCalendarDate_2024_01_10: "parseCalendarDate ''2024-01-10'' = Some 19732"
  by (simp add: parseCalendarDate.simps number4_def number2_def digit_def validateDate_def daysInMonth_def
      isLeapYearIndex_def daysFromCivil_def)

lemma examExpired_parsed:
  assumes "parseCalendarDate (date e) = Some D"
  shows "examExpired host now e
     \<longleftrightarrow> D * MILLISECONDS_IN_DAY + 10 * MILLISECONDS_IN_HOUR < now + saudiArabiaTimeZone"
proof -
  have "(D * MILLISECONDS_IN_DAY) mod MILLISECONDS_IN_HOUR = 0"
    by (simp add: MILLISECONDS_IN_DAY_def MILLISECONDS_IN_HOUR_def)
  moreover have "(D * MILLISECONDS_IN_DAY) div MILLISECONDS_IN_DAY = D"
    by (simp add: MILLISECONDS_IN_DAY_def)
  ultimately show ?thesis
    using assms
    by (simp add: examExpired_def parseISO_def setHours_def utcToZonedTime_def
        isBefore_def Let_def)
qed

text \<open>
  C1. For an exam whose date is the calendar day \<open>D\<close>, the test of the loop holds if and
  only if the instant at which the fixed zone shows 10:00 on day \<open>D\<close> is strictly before
  the reading of the clock, whatever the zone of the host.
\<close>

theorem expired_iff_cutoff_before_now:
  assumes "parseCalendarDate (date e) = Some D"
  shows "examExpired host now e \<longleftrightarrow> spec_cutoff_instant D < now"
  using examExpired_parsed [OF assms, of host now]
  unfolding spec_cutoff_instant_def by linarith

text \<open>The three scenarios of the specification for the exam of 2024-01-10: at 09:00 and
  at 11:00 of that day, and at 23:00 of the day before, on the wall clock of the fixed
  zone.\<close>

theorem expired_iff_cutoff_before_now_witness:
  "parseCalendarDate (date 
       \<lparr>exam_id = 1, subject = ''math'', date = ''2024-01-10'', topics = [''ch1'']\<rparr>) = Some 19732
   \<and> \<not> examExpired 0 1704866400000 
       \<lparr>exam_id = 1, subject = ''math'', date = ''2024-01-10'', topics = [''ch1'']\<rparr>
   \<and> examExpired 0 1704873600000 
       \<lparr>exam_id = 1, subject = ''math'', date = ''2024-01-10'', topics = [''ch1'']\<rparr>
   \<and> \<not> examExpired 0 1704830400000 
       \<lparr>exam_id = 1, subject = ''math'', date = ''2024-01-10'', topics = [''ch1'']\<rparr>"
proof -
  let ?e = "
       \<lparr>exam_id = 1, subject = ''math'', date = ''2024-01-10'', topics = [''ch1'']\<rparr>"
  have p: "parseCalendarDate (date ?e) = Some 19732"
    by (simp add: parseCalendarDate_2024_01_10)
  show ?thesis
    using p expired_iff_cutoff_before_now [OF p, of 0 1704866400000]
      expired_iff_cutoff_before_now [OF p, of 0 1704873600000]
      expired_iff_cutoff_before_now [OF p, of 0 1704830400000]
    by (simp add: spec_cutoff_instant_def MILLISECONDS_IN_DAY_def MILLISECONDS_IN_HOUR_def
        saudiArabiaTimeZone_def)
qed

text \<open>
  C4. For an exam whose date is the calendar day that the fixed zone shows at the
  reading of the clock, the test holds if and only if the time of day in the fixed zone
  is strictly after 10:00:00.000: the exam is not expired before 10:00 and at the
  instant 10:00:00.000 itself, and it is expired from the next millisecond on.
\<close>

theorem same_day_expired_iff_after_ten:
  assumes "parseCalendarDate (date e) = Some D" and "riyadhDay now = D"
  shows "examExpired host now e \<longleftrightarrow> 10 * MILLISECONDS_IN_HOUR < riyadhTimeOfDay now"
proof -
  have "now + saudiArabiaTimeZone
      = riyadhDay now * MILLISECONDS_IN_DAY + riyadhTimeOfDay now"
    by (simp add: riyadhDay_def riyadhTimeOfDay_def)
  then show ?thesis
    using examExpired_parsed [OF assms(1), of host now] assms(2) by simp
qed

text \<open>On 2024-01-10 at 09:00, at 10:00:00.000 and at 10:00:00.001 in the fixed zone.\<close>

theorem same_day_expired_iff_after_ten_witness:
  "parseCalendarDate (date 
       \<lparr>exam_id = 1, subject = ''math'', date = ''2024-01-10'', topics = [''ch1'']\<rparr>) = Some 19732
   \<and> riyadhDay 1704866400000 = 19732
   \<and> riyadhDay 1704870000000 = 19732
   \<and> riyadhDay 1704870000001 = 19732
   \<and> \<not> examExpired 0 1704866400000 
       \<lparr>exam_id = 1, subject = ''math'', date = ''2024-01-10'', topics = [''ch1'']\<rparr>
   \<and> \<not> examExpired 0 1704870000000 
       \<lparr>exam_id = 1, subject = ''math'', date = ''2024-01-10'', topics = [''ch1'']\<rparr>
   \<and> examExpired 0 1704870000001 
       \<lparr>exam_id = 1, subject = ''math'', date = ''2024-01-10'', topics = [''ch1'']\<rparr>"
proof -
  let ?e = "
       \<lparr>exam_id = 1, subject = ''math'', date = ''2024-01-10'', topics = [''ch1'']\<rparr>"
  have p: "parseCalendarDate (date ?e) = Some 19732"
    by (simp add: parseCalendarDate_2024_01_10)
  have d1: "riyadhDay 1704866400000 = 19732" and d2: "riyadhDay 1704870000000 = 19732"
    and d3: "riyadhDay 1704870000001 = 19732"
    by (simp_all add: riyadhDay_def MILLISECONDS_IN_DAY_def MILLISECONDS_IN_HOUR_def
        saudiArabiaTimeZone_def)
  show ?thesis
    using p d1 d2 d3 same_day_expired_iff_after_ten [OF p d1, of 0]
      same_day_expired_iff_after_ten [OF p d2, of 0]
      same_day_expired_iff_after_ten [OF p d3, of 0]
    by (simp add: riyadhTimeOfDay_def MILLISECONDS_IN_DAY_def MILLISECONDS_IN_HOUR_def
        saudiArabiaTimeZone_def)
qed

text \<open>At the instant at which the fixed zone shows 10:00:00.000 on 2024-01-10, the exam
  of 2024-01-10 is not expired.\<close>

theorem same_day_at_ten_counterexample:
  "parseCalendarDate ''2024-01-10'' = Some (riyadhDay 1704870000000)
   \<and> riyadhTimeOfDay 1704870000000 = 10 * MILLISECONDS_IN_HOUR
   \<and> \<not> examExpired 0 1704870000000 
       \<lparr>exam_id = 1, subject = ''math'', date = ''2024-01-10'', topics = [''ch1'']\<rparr>"
  by (simp add: examExpired_parsed [where D = 19732] parseCalendarDate_2024_01_10
      riyadhDay_def riyadhTimeOfDay_def MILLISECONDS_IN_DAY_def MILLISECONDS_IN_HOUR_def
      saudiArabiaTimeZone_def)

subsection \<open>Evaluation of the model, and facts about the loop\<close>

lemmas expiry_eval = examExpired_def parseISO_def setHours_def utcToZonedTime_def
  isBefore_def parseCalendarDate.simps number4_def number2_def digit_def validateDate_def
  daysInMonth_def isLeapYearIndex_def daysFromCivil_def MILLISECONDS_IN_DAY_def
  MILLISECONDS_IN_HOUR_def saudiArabiaTimeZone_def

lemma fixedClock_eq: "fixedClock now = (\<lambda>k. now)"
  by (rule ext) (simp add: fixedClock_def)

lemmas sweep_eval = deleteExpiredExams_def getExams_def deleteExam_def fixedClock_eq

lemma parseISO_not_a_date: "parseISO host ''not-a-date'' = None"
  by (simp add: parseISO_def parseCalendarDate.simps)

lemma forExams_failing:
  "forExams host clock k xs st = (st', lg, r) \<Longrightarrow>
     delete_fails st' = delete_fails st \<and> list_fails st' = list_fails st"
proof (induction xs arbitrary: k st st' lg r)
  case Nil
  then show ?case by simp
next
  case (Cons e es)
  show ?case
  proof (cases "examExpired host (clock k) e \<and> exam_id e \<notin> set (delete_fails st)")
    case True
    let ?st1 = "st\<lparr>exams := filter (\<lambda>x. exam_id x \<noteq> exam_id e) (exams st)\<rparr>"
    obtain s2 l2 r2 where rec: "forExams host clock (Suc k) es ?st1 = (s2, l2, r2)"
      by (cases "forExams host clock (Suc k) es ?st1") auto
    from Cons.prems True rec have "st' = s2" by (simp add: deleteExam_def)
    with Cons.IH [OF rec] show ?thesis by simp
  next
    case False
    then show ?thesis
      using Cons.prems Cons.IH [of "Suc k" st st' lg r]
      by (auto simp: deleteExam_def split: if_splits)
  qed
qed

lemma forExams_append:
  "forExams host clock k (xs @ ys) st =
     (case forExams host clock k xs st of
        (st', lg, Some err) \<Rightarrow> (st', lg, Some err)
      | (st', lg, None) \<Rightarrow>
          (case forExams host clock (k + length xs) ys st' of
             (st'', lg', r) \<Rightarrow> (st'', lg @ lg', r)))"
proof (induction xs arbitrary: k st)
  case Nil
  then show ?case by (simp split: prod.splits)
next
  case (Cons e es)
  show ?case
    by (simp add: Cons.IH split: prod.splits sum.splits option.splits)
qed

lemma quiet_filter:
  "quiet host now fl ys \<Longrightarrow> i \<notin> set fl \<Longrightarrow>
     quiet host now fl (filter (\<lambda>x. exam_id x \<noteq> i) ys)"
  by (induction ys) auto

lemma quiet_forExams:
  "quiet host now (delete_fails st) ys \<Longrightarrow>
     \<exists>r. forExams host (\<lambda>j. now) k ys st = (st, [], r)"
  by (induction ys arbitrary: k) (auto simp: deleteExam_def)

lemma forExams_fixed:
  "forExams host (\<lambda>j. now) k xs st = (st', lg, r) \<Longrightarrow>
     exams st' = filter (\<lambda>x. exam_id x \<notin> set (deletedIds lg)) (exams st)
     \<and> quiet host now (delete_fails st)
          (filter (\<lambda>x. exam_id x \<notin> set (deletedIds lg)) xs)"
proof (induction xs arbitrary: k st st' lg r)
  case Nil
  then show ?case by simp
next
  case (Cons e es)
  show ?case
  proof (cases "examExpired host now e")
    case False
    then have "forExams host (\<lambda>j. now) (Suc k) es st = (st', lg, r)"
      using Cons.prems by simp
    from Cons.IH [OF this] False show ?thesis by simp
  next
    case True
    show ?thesis
    proof (cases "exam_id e \<in> set (delete_fails st)")
      case True
      with \<open>examExpired host now e\<close> Cons.prems show ?thesis
        by (simp add: deleteExam_def)
    next
      case False
      let ?st1 = "st\<lparr>exams := filter (\<lambda>x. exam_id x \<noteq> exam_id e) (exams st)\<rparr>"
      obtain s2 l2 r2 where
        rec: "forExams host (\<lambda>j. now) (Suc k) es ?st1 = (s2, l2, r2)"
        by (cases "forExams host (\<lambda>j. now) (Suc k) es ?st1") auto
      from Cons.prems True False rec
      have eq: "st' = s2" "lg = DeletedAutomatically (exam_id e) # l2"
        by (simp_all add: deleteExam_def)
      from Cons.IH [OF rec]
      have ex: "exams s2 = filter (\<lambda>x. exam_id x \<notin> set (deletedIds l2)) (exams ?st1)"
        and q: "quiet host now (delete_fails st)
                  (filter (\<lambda>x. exam_id x \<notin> set (deletedIds l2)) es)"
        by simp_all
      have f: "filter (\<lambda>x. exam_id x \<notin> set (deletedIds lg)) zs
          = filter (\<lambda>x. exam_id x \<noteq> exam_id e)
              (filter (\<lambda>x. exam_id x \<notin> set (deletedIds l2)) zs)" for zs
        by (auto simp: eq intro: filter_cong)
      have "exams st' = filter (\<lambda>x. exam_id x \<notin> set (deletedIds lg)) (exams st)"
        using ex eq by (auto intro: filter_cong)
      moreover have "quiet host now (delete_fails st)
          (filter (\<lambda>x. exam_id x \<notin> set (deletedIds lg)) (e # es))"
        using quiet_filter [OF q False] f [of es] eq by simp
      ultimately show ?thesis by simp
    qed
  qed
qed

subsection \<open>The run of deleteExpiredExams\<close>

text \<open>
  C2. For every exam whose date fails to parse, the test of the loop is false at every
  reading of the clock: the exam is classified as not expired without any error, and the
  loop goes on with the remaining exams, with the store unchanged and nothing logged for
  that exam.
\<close>

theorem unparseable_date_skipped_silently:
  assumes "parseISO host (date e) = None"
  shows "\<not> examExpired host now e
     \<and> forExams host clock k (e # es) st = forExams host clock (Suc k) es st"
proof -
  have "\<not> examExpired host t e" for t
    using assms by (simp add: examExpired_def setHours_def isBefore_def)
  then show ?thesis by simp
qed

text \<open>
  The third exam of a fetched list, with an unparseable date, followed by a fourth.
\<close>

theorem unparseable_date_skipped_silently_witness:
  "parseISO 0 (date \<lparr>exam_id = 3, subject = ''math'', date = ''not-a-date'', topics = [''ch3'']\<rparr>) = None
   \<and> \<not> examExpired 0 1706745600000
        \<lparr>exam_id = 3, subject = ''math'', date = ''not-a-date'', topics = [''ch3'']\<rparr>
   \<and> forExams 0 (fixedClock 1706745600000) 2
        [\<lparr>exam_id = 3, subject = ''math'', date = ''not-a-date'', topics = [''ch3'']\<rparr>,
         \<lparr>exam_id = 4, subject = ''math'', date = ''2024-01-04'', topics = [''ch4'']\<rparr>]
        \<lparr>exams = [], next_id = 6, list_fails = False, delete_fails = [], create_fails = False\<rparr>
     = forExams 0 (fixedClock 1706745600000) 3
        [\<lparr>exam_id = 4, subject = ''math'', date = ''2024-01-04'', topics = [''ch4'']\<rparr>]
        \<lparr>exams = [], next_id = 6, list_fails = False, delete_fails = [], create_fails = False\<rparr>"
proof -
  let ?e = "\<lparr>exam_id = 3, subject = ''math'', date = ''not-a-date'', topics = [''ch3'']\<rparr>"
  have p: "parseISO 0 (date ?e) = None"
    by (simp add: parseISO_not_a_date)
  show ?thesis
    using p unparseable_date_skipped_silently [OF p] by simp
qed

text \<open>
  The isolation scenario of the specification: five exams, the third with an unparseable
  date, all the others expired. The four are deleted; for the third the test is false,
  and the run logs neither an error nor anything else about it.
\<close>

theorem unparseable_date_not_reported_counterexample:
  "parseISO 0 ''not-a-date'' = None
   \<and> examExpired 0 1706745600000
        \<lparr>exam_id = 3, subject = ''math'', date = ''not-a-date'', topics = [''ch3'']\<rparr> = False
   \<and> deleteExpiredExams 0 (fixedClock 1706745600000)
        \<lparr>exams =
           [\<lparr>exam_id = 1, subject = ''math'', date = ''2024-01-01'', topics = [''ch1'']\<rparr>,
            \<lparr>exam_id = 2, subject = ''math'', date = ''2024-01-02'', topics = [''ch2'']\<rparr>,
            \<lparr>exam_id = 3, subject = ''math'', date = ''not-a-date'', topics = [''ch3'']\<rparr>,
            \<lparr>exam_id = 4, subject = ''math'', date = ''2024-01-04'', topics = [''ch4'']\<rparr>,
            \<lparr>exam_id = 5, subject = ''math'', date = ''2024-01-05'', topics = [''ch5'']\<rparr>],
          next_id = 6, list_fails = False, delete_fails = [], create_fails = False\<rparr>
     = (\<lparr>exams =
           [\<lparr>exam_id = 3, subject = ''math'', date = ''not-a-date'', topics = [''ch3'']\<rparr>],
          next_id = 6, list_fails = False, delete_fails = [], create_fails = False\<rparr>,
        [DeletedAutomatically 1, DeletedAutomatically 2,
         DeletedAutomatically 4, DeletedAutomatically 5])"
  by (simp add: expiry_eval sweep_eval)

text \<open>
  C3. A failure of the fetch of the list ends the run with the error logged and the
  store untouched. A failure of the delete call for an expired exam is caught by the one
  handler of the run and logged, and it ends the run too: the result is the store and
  the log reached by the exams before it, followed by the error; the exams after it are
  neither evaluated nor deleted in that run.
\<close>

theorem delete_failure_ends_run:
  "(getExams st = Inl err \<longrightarrow>
      deleteExpiredExams host clock st = (st, [ErrorDeletingExpiredExams err]))
   \<and> (getExams st = Inr (pre @ e # post)
        \<and> forExams host clock 0 pre st = (st', lg, None)
        \<and> examExpired host (clock (length pre)) e
        \<and> exam_id e \<in> set (delete_fails st)
      \<longrightarrow> deleteExpiredExams host clock st
            = (st', lg @ [ErrorDeletingExpiredExams StoreError]))"
proof (intro conjI impI)
  assume "getExams st = Inl err"
  then show "deleteExpiredExams host clock st = (st, [ErrorDeletingExpiredExams err])"
    by (simp add: deleteExpiredExams_def)
next
  assume a: "getExams st = Inr (pre @ e # post)
        \<and> forExams host clock 0 pre st = (st', lg, None)
        \<and> examExpired host (clock (length pre)) e
        \<and> exam_id e \<in> set (delete_fails st)"
  then have df: "delete_fails st' = delete_fails st"
    using forExams_failing by blast
  have "forExams host clock (length pre) (e # post) st' = (st', [], Some StoreError)"
    using a df by (simp add: deleteExam_def)
  then have "forExams host clock 0 (pre @ e # post) st = (st', lg, Some StoreError)"
    using a by (simp add: forExams_append)
  then show "deleteExpiredExams host clock st
            = (st', lg @ [ErrorDeletingExpiredExams StoreError])"
    using a by (simp add: deleteExpiredExams_def)
qed

text \<open>
  A store whose list call fails; and a store of three expired exams where the deletion
  of the second fails.
\<close>

theorem delete_failure_ends_run_witness:
  "getExams \<lparr>exams = [], next_id = 1, list_fails = True, delete_fails = [], create_fails = False\<rparr>
     = Inl StoreError
   \<and> deleteExpiredExams 0 (fixedClock 1706745600000)
        \<lparr>exams = [], next_id = 1, list_fails = True, delete_fails = [], create_fails = False\<rparr>
     = (\<lparr>exams = [], next_id = 1, list_fails = True, delete_fails = [], create_fails = False\<rparr>,
        [ErrorDeletingExpiredExams StoreError])
   \<and> deleteExpiredExams 0 (fixedClock 1706745600000)
        \<lparr>exams =
           [\<lparr>exam_id = 1, subject = ''math'', date = ''2024-01-01'', topics = [''ch1'']\<rparr>,
            \<lparr>exam_id = 2, subject = ''math'', date = ''2024-01-02'', topics = [''ch2'']\<rparr>,
            \<lparr>exam_id = 3, subject = ''math'', date = ''2024-01-03'', topics = [''ch3'']\<rparr>],
          next_id = 4, list_fails = False, delete_fails = [2], create_fails = False\<rparr>
     = (\<lparr>exams =
           [\<lparr>exam_id = 2, subject = ''math'', date = ''2024-01-02'', topics = [''ch2'']\<rparr>,
            \<lparr>exam_id = 3, subject = ''math'', date = ''2024-01-03'', topics = [''ch3'']\<rparr>],
          next_id = 4, list_fails = False, delete_fails = [2], create_fails = False\<rparr>,
        [DeletedAutomatically 1] @ [ErrorDeletingExpiredExams StoreError])"
proof -
  let ?e1 = "\<lparr>exam_id = 1, subject = ''math'', date = ''2024-01-01'', topics = [''ch1'']\<rparr>"
  let ?e2 = "\<lparr>exam_id = 2, subject = ''math'', date = ''2024-01-02'', topics = [''ch2'']\<rparr>"
  let ?e3 = "\<lparr>exam_id = 3, subject = ''math'', date = ''2024-01-03'', topics = [''ch3'']\<rparr>"
  let ?a = "\<lparr>exams = [], next_id = 1, list_fails = True, delete_fails = [],
              create_fails = False\<rparr>"
  let ?b = "\<lparr>exams = [?e1, ?e2, ?e3], next_id = 4, list_fails = False, delete_fails = [2],
              create_fails = False\<rparr>"
  let ?b' = "\<lparr>exams = [?e2, ?e3], next_id = 4, list_fails = False, delete_fails = [2],
              create_fails = False\<rparr>"
  let ?c = "fixedClock 1706745600000"
  have a: "getExams ?a = Inl StoreError"
    by (simp add: getExams_def)
  have b1: "getExams ?b = Inr ([?e1] @ ?e2 # [?e3])"
    by (simp add: getExams_def)
  have b2: "forExams 0 ?c 0 [?e1] ?b = (?b', [DeletedAutomatically 1], None)"
    by (simp add: expiry_eval sweep_eval)
  have b3: "examExpired 0 (?c (length [?e1])) ?e2"
    by (simp add: expiry_eval sweep_eval)
  have b4: "exam_id ?e2 \<in> set (delete_fails ?b)"
    by simp
  from delete_failure_ends_run [of ?a StoreError 0 ?c "[]" ?e1 "[]" ?a "[]"] a
  have "deleteExpiredExams 0 ?c ?a = (?a, [ErrorDeletingExpiredExams StoreError])"
    by blast
  moreover
  from delete_failure_ends_run [of ?b StoreError 0 ?c "[?e1]" ?e2 "[?e3]" ?b'
      "[DeletedAutomatically 1]"] b1 b2 b3 b4
  have "deleteExpiredExams 0 ?c ?b
      = (?b', [DeletedAutomatically 1] @ [ErrorDeletingExpiredExams StoreError])"
    by blast
  ultimately show ?thesis using a by simp
qed

text \<open>
  Two expired exams, the deletion of the first fails: the second is expired and stays
  in the store.
\<close>

theorem delete_failure_skips_rest_counterexample:
  "examExpired 0 1706745600000
     \<lparr>exam_id = 2, subject = ''math'', date = ''2024-01-02'', topics = [''ch2'']\<rparr>
   \<and> deleteExpiredExams 0 (fixedClock 1706745600000)
        \<lparr>exams =
           [\<lparr>exam_id = 1, subject = ''math'', date = ''2024-01-01'', topics = [''ch1'']\<rparr>,
            \<lparr>exam_id = 2, subject = ''math'', date = ''2024-01-02'', topics = [''ch2'']\<rparr>],
          next_id = 3, list_fails = False, delete_fails = [1], create_fails = False\<rparr>
     = (\<lparr>exams =
           [\<lparr>exam_id = 1, subject = ''math'', date = ''2024-01-01'', topics = [''ch1'']\<rparr>,
            \<lparr>exam_id = 2, subject = ''math'', date = ''2024-01-02'', topics = [''ch2'']\<rparr>],
          next_id = 3, list_fails = False, delete_fails = [1], create_fails = False\<rparr>,
        [ErrorDeletingExpiredExams StoreError])"
  by (simp add: expiry_eval sweep_eval)

text \<open>
  C5. At a fixed "now", a second run on the store that the first run left deletes
  nothing: it leaves the store as it is, and it logs no deletion. This holds for every
  store, also one in which the list call or some delete calls fail.
\<close>

theorem sweep_twice_deletes_nothing:
  "fst (deleteExpiredExams host (fixedClock now)
          (fst (deleteExpiredExams host (fixedClock now) st)))
     = fst (deleteExpiredExams host (fixedClock now) st)
   \<and> deletedIds (snd (deleteExpiredExams host (fixedClock now)
          (fst (deleteExpiredExams host (fixedClock now) st)))) = []"
proof (cases "list_fails st")
  case True
  then show ?thesis by (simp add: deleteExpiredExams_def getExams_def)
next
  case False
  define clock :: "nat \<Rightarrow> int" where "clock = (\<lambda>j. now)"
  obtain st' lg r where run: "forExams host clock 0 (exams st) st = (st', lg, r)"
    by (cases "forExams host clock 0 (exams st) st") auto
  have first: "fst (deleteExpiredExams host clock st) = st'"
    using False run by (simp add: deleteExpiredExams_def getExams_def split: option.splits)
  have fl: "delete_fails st' = delete_fails st" "list_fails st' = list_fails st"
    using forExams_failing [OF run] by simp_all
  have "quiet host now (delete_fails st') (exams st')"
    using forExams_fixed [OF run [unfolded clock_def]] fl by simp
  then obtain r' where again: "forExams host clock 0 (exams st') st' = (st', [], r')"
    using quiet_forExams unfolding clock_def by blast
  have second: "deleteExpiredExams host clock st'
      = (st', case r' of None \<Rightarrow> [] | Some err \<Rightarrow> [ErrorDeletingExpiredExams err])"
    using False fl again
    by (simp add: deleteExpiredExams_def getExams_def split: option.splits)
  show ?thesis
    unfolding fixedClock_eq clock_def [symmetric] first second by (simp split: option.splits)
qed

text \<open>
  One expired exam and one in the future: the first run leaves the second exam, the
  second run leaves it too.
\<close>

theorem sweep_twice_deletes_nothing_witness:
  "fst (deleteExpiredExams 0 (fixedClock 1706745600000)
     (fst (deleteExpiredExams 0 (fixedClock 1706745600000)
        \<lparr>exams =
           [\<lparr>exam_id = 1, subject = ''math'', date = ''2024-01-01'', topics = [''ch1'']\<rparr>,
            \<lparr>exam_id = 2, subject = ''math'', date = ''2024-03-02'', topics = [''ch2'']\<rparr>],
          next_id = 3, list_fails = False, delete_fails = [], create_fails = False\<rparr>)))
   = \<lparr>exams =
        [\<lparr>exam_id = 2, subject = ''math'', date = ''2024-03-02'', topics = [''ch2'']\<rparr>],
       next_id = 3, list_fails = False, delete_fails = [], create_fails = False\<rparr>
   \<and> deletedIds (snd (deleteExpiredExams 0 (fixedClock 1706745600000)
     (fst (deleteExpiredExams 0 (fixedClock 1706745600000)
        \<lparr>exams =
           [\<lparr>exam_id = 1, subject = ''math'', date = ''2024-01-01'', topics = [''ch1'']\<rparr>,
            \<lparr>exam_id = 2, subject = ''math'', date = ''2024-03-02'', topics = [''ch2'']\<rparr>],
          next_id = 3, list_fails = False, delete_fails = [], create_fails = False\<rparr>)))) = []"
proof -
  let ?st = "\<lparr>exams =
           [\<lparr>exam_id = 1, subject = ''math'', date = ''2024-01-01'', topics = [''ch1'']\<rparr>,
            \<lparr>exam_id = 2, subject = ''math'', date = ''2024-03-02'', topics = [''ch2'']\<rparr>],
          next_id = 3, list_fails = False, delete_fails = [], create_fails = False\<rparr>"
  have first: "fst (deleteExpiredExams 0 (fixedClock 1706745600000) ?st)
     = \<lparr>exams =
        [\<lparr>exam_id = 2, subject = ''math'', date = ''2024-03-02'', topics = [''ch2'']\<rparr>],
       next_id = 3, list_fails = False, delete_fails = [], create_fails = False\<rparr>"
    by (simp add: expiry_eval sweep_eval)
  show ?thesis
    using sweep_twice_deletes_nothing [of 0 1706745600000 ?st]
    unfolding first by simp
qed

subsection \<open>The remaining days and their cell\<close>

lemma parseCalendarDate_2024_01_15: "parseCalendarDate ''2024-01-15'' = Some 19737"
  by (simp add: parseCalendarDate.simps number4_def number2_def digit_def validateDate_def
      daysInMonth_def isLeapYearIndex_def daysFromCivil_def)

lemma parseCalendarDate_2024_01_11: "parseCalendarDate ''2024-01-11'' = Some 19733"
  by (simp add: parseCalendarDate.simps number4_def number2_def digit_def validateDate_def
      daysInMonth_def isLeapYearIndex_def daysFromCivil_def)

lemma calculateRemainingDays_parsed:
  assumes "parseCalendarDate s = Some D"
  shows "calculateRemainingDays host now s =
     Some (if (now + host) div MILLISECONDS_IN_DAY < D
              \<and> 0 < (now + host) mod MILLISECONDS_IN_DAY
           then D - (now + host) div MILLISECONDS_IN_DAY - 1
           else D - (now + host) div MILLISECONDS_IN_DAY)"
proof -
  define D0 where "D0 = (now + host) div 86400000"
  define tod where "tod = (now + host) mod 86400000"
  have x: "now = D0 * 86400000 + tod - host"
    by (simp add: D0_def tod_def)
  have t: "0 \<le> tod" "tod < 86400000"
    by (simp_all add: tod_def)
  have l: "(D * 86400000 - host + host) div 86400000 = D"
    by simp
  consider "D < D0" | "D = D0" | "D0 < D" "tod = 0" | "D0 < D" "0 < tod"
    using t by linarith
  then have "differenceInDays host (Some (D * 86400000 - host)) (Some now)
      = Some (if D0 < D \<and> 0 < tod then D - D0 - 1 else D - D0)"
  proof cases
    case 1
    then show ?thesis
      using t by (simp add: differenceInDays_def differenceInCalendarDays_def
          compareLocalAsc_def MILLISECONDS_IN_DAY_def l D0_def [symmetric] x Let_def)
  next
    case 2
    then show ?thesis
      using t by (simp add: differenceInDays_def differenceInCalendarDays_def
          compareLocalAsc_def MILLISECONDS_IN_DAY_def l D0_def [symmetric] x Let_def)
  next
    case 3
    then show ?thesis
      using t by (simp add: differenceInDays_def differenceInCalendarDays_def
          compareLocalAsc_def MILLISECONDS_IN_DAY_def l D0_def [symmetric] x Let_def)
  next
    case 4
    then show ?thesis
      using t by (simp add: differenceInDays_def differenceInCalendarDays_def
          compareLocalAsc_def MILLISECONDS_IN_DAY_def l D0_def [symmetric] x Let_def)
  qed
  then show ?thesis
    using assms
    by (simp add: calculateRemainingDays_def parseISO_def MILLISECONDS_IN_DAY_def
        D0_def tod_def)
qed

lemma remainingDaysCell_cases:
  "remainingDaysCell v =
     (case v of Number (Some n) \<Rightarrow> if 0 < n then DaysText n else TodayText
      | _ \<Rightarrow> TodayText)"
  by (simp add: remainingDaysCell_def truthy_def greaterThanZero_def
      split: nullable_number.splits option.splits)

lemma calculateRemainingDays_NaN:
  "calculateRemainingDays host now s = None \<longleftrightarrow> parseISO host s = None"
  by (simp add: calculateRemainingDays_def differenceInDays_def Let_def
      split: option.splits)

text \<open>
  On a host at a fixed offset, during the calendar day 2024-01-10 of the host: the exam
  date 2024-01-15 gives 5 at the time of day 00:00:00.000 and 4 at every later time, the
  exam date 2024-01-10 gives 0 at every time.
\<close>

lemma calculateRemainingDays_during_2024_01_10:
  assumes "parseCalendarDate ''2024-01-10'' = Some ((now + host) div MILLISECONDS_IN_DAY)"
  shows "calculateRemainingDays host now ''2024-01-15''
           = Some (if (now + host) mod MILLISECONDS_IN_DAY = 0 then 5 else 4)
     \<and> calculateRemainingDays host now ''2024-01-10'' = Some 0"
proof -
  have today: "(now + host) div MILLISECONDS_IN_DAY = 19732"
    using assms by (simp add: parseCalendarDate_2024_01_10)
  have "0 \<le> (now + host) mod MILLISECONDS_IN_DAY"
    by (simp add: MILLISECONDS_IN_DAY_def)
  then show ?thesis
    using calculateRemainingDays_parsed [OF parseCalendarDate_2024_01_15, of host now]
      calculateRemainingDays_parsed [OF parseCalendarDate_2024_01_10, of host now]
    by (auto simp: today)
qed

text \<open>
  The number that \<open>calculateRemainingDays\<close> returns is NaN exactly when the string fails
  to parse, and the cell of an exam whose date fails to parse shows the text for "today".
\<close>

lemma calculateRemainingDays_unparseable:
  "(calculateRemainingDays host now s = None \<longleftrightarrow> parseISO host s = None)
   \<and> (parseISO host (date e) = None \<longrightarrow>
        remainingDays host now e \<in> {Null, Number None}
        \<and> remainingDaysCell (remainingDays host now e) = TodayText)"
  using calculateRemainingDays_NaN [of host now "date e"]
    calculateRemainingDays_NaN [of host now s]
  by (auto simp: remainingDaysCell_cases remainingDays_def)

text \<open>
  C6. At 12:00 of 2024-01-10 on a host in UTC, \<open>calculateRemainingDays\<close> gives 4 for
  the exam date 2024-01-15, where the calendar dates are 5 days apart: \<open>new Date()\<close>
  carries the time of day into \<open>differenceInDays\<close>, which counts full days. At the same
  instant it gives 0 for the exam of the next day, 2024-01-11, and the cell of that exam
  shows the text for "today".
\<close>

theorem remaining_days_at_noon_is_four:
  "parseCalendarDate ''2024-01-10'' = Some ((1704888000000 + 0) div MILLISECONDS_IN_DAY)
   \<and> calculateRemainingDays 0 1704888000000 ''2024-01-15'' = Some 4
   \<and> calculateRemainingDays 0 1704888000000 ''2024-01-11'' = Some 0
   \<and> remainingDaysCell (remainingDays 0 1704888000000
        \<lparr>exam_id = 1, subject = ''math'', date = ''2024-01-11'', topics = [''ch1'']\<rparr>)
       = TodayText"
  by (simp add: calculateRemainingDays_parsed [OF parseCalendarDate_2024_01_15]
      calculateRemainingDays_parsed [OF parseCalendarDate_2024_01_11]
      parseCalendarDate_2024_01_10 remainingDays_def remainingDaysCell_cases
      MILLISECONDS_IN_DAY_def)

text \<open>
  C7. For the exam whose date is the string \<open>not-a-date\<close>, \<open>calculateRemainingDays\<close>
  returns NaN without raising, and the cell shows the text for "today", the same text as
  the cell of an exam of the same day; there is no placeholder in this cell, where the
  cell of the date in the same row shows \<open>-\<close> for a date that is not valid.
\<close>

theorem unparseable_date_shown_as_today:
  "parseISO 0 ''not-a-date'' = None
   \<and> calculateRemainingDays 0 1704888000000 ''not-a-date'' = None
   \<and> remainingDays 0 1704888000000
        \<lparr>exam_id = 3, subject = ''math'', date = ''not-a-date'', topics = [''ch3'']\<rparr>
       = Number None
   \<and> remainingDaysCell (remainingDays 0 1704888000000
        \<lparr>exam_id = 3, subject = ''math'', date = ''not-a-date'', topics = [''ch3'']\<rparr>)
       = TodayText
   \<and> remainingDaysCell (remainingDays 0 1704888000000
        \<lparr>exam_id = 1, subject = ''math'', date = ''2024-01-10'', topics = [''ch1'']\<rparr>)
       = TodayText"
  by (simp add: remainingDaysCell_cases remainingDays_def parseISO_not_a_date
      calculateRemainingDays_NaN [THEN iffD2]
      calculateRemainingDays_parsed [OF parseCalendarDate_2024_01_10]
      MILLISECONDS_IN_DAY_def)

text \<open>
  C10. The cell shows the number of days, followed by the word for "day", exactly when
  the computed value is a number strictly greater than zero; in every other case (zero,
  a negative number, NaN, \<open>null\<close>) it shows the word for "today".
\<close>

theorem remaining_cell_shows_days_iff_positive:
  "(remainingDaysCell (remainingDays host now e) = DaysText n
      \<longleftrightarrow> remainingDays host now e = Number (Some n) \<and> 0 < n)
   \<and> (\<not> (\<exists>m. remainingDays host now e = Number (Some m) \<and> 0 < m)
      \<longrightarrow> remainingDaysCell (remainingDays host now e) = TodayText)"
  by (auto simp: remainingDaysCell_cases split: nullable_number.splits option.splits)

text \<open>
  At 12:00 of 2024-01-10: an exam of 2024-01-15, and an exam of the day before.
\<close>

theorem remaining_cell_shows_days_iff_positive_witness:
  "remainingDays 0 1704888000000
     \<lparr>exam_id = 1, subject = ''math'', date = ''2024-01-15'', topics = [''ch1'']\<rparr>
     = Number (Some 4)
   \<and> remainingDaysCell (remainingDays 0 1704888000000
        \<lparr>exam_id = 1, subject = ''math'', date = ''2024-01-15'', topics = [''ch1'']\<rparr>)
       = DaysText 4
   \<and> \<not> (\<exists>m. remainingDays 0 1704888000000
        \<lparr>exam_id = 2, subject = ''math'', date = ''2024-01-09'', topics = [''ch1'']\<rparr>
          = Number (Some m) \<and> 0 < m)
   \<and> remainingDaysCell (remainingDays 0 1704888000000
        \<lparr>exam_id = 2, subject = ''math'', date = ''2024-01-09'', topics = [''ch1'']\<rparr>)
       = TodayText"
proof -
  let ?a = "\<lparr>exam_id = 1, subject = ''math'', date = ''2024-01-15'', topics = [''ch1'']\<rparr>"
  let ?b = "\<lparr>exam_id = 2, subject = ''math'', date = ''2024-01-09'', topics = [''ch1'']\<rparr>"
  have a: "remainingDays 0 1704888000000 ?a = Number (Some 4)"
    by (simp add: remainingDays_def MILLISECONDS_IN_DAY_def
        calculateRemainingDays_parsed [OF parseCalendarDate_2024_01_15])
  have "parseCalendarDate ''2024-01-09'' = Some 19731"
    by (simp add: parseCalendarDate.simps number4_def number2_def digit_def validateDate_def
        daysInMonth_def isLeapYearIndex_def daysFromCivil_def)
  then have b: "remainingDays 0 1704888000000 ?b = Number (Some (- 1))"
    by (simp add: remainingDays_def MILLISECONDS_IN_DAY_def calculateRemainingDays_parsed)
  have nb: "\<not> (\<exists>m. remainingDays 0 1704888000000 ?b = Number (Some m) \<and> 0 < m)"
    by (simp add: b)
  show ?thesis
    using a nb remaining_cell_shows_days_iff_positive [of 0 1704888000000 ?a 4]
      remaining_cell_shows_days_iff_positive [of 0 1704888000000 ?b 0]
    by simp
qed

subsection \<open>The timer\<close>

text \<open>
  The state of the process after \<open>t\<close> milliseconds, for a timer of any delay
  \<open>P > 0\<close>: the timer has called at the uptimes \<open>P\<close>, \<open>2 * P\<close>, ... up to \<open>t\<close>, and
  the store is the result of these calls in their order.
\<close>

lemma elapse_state:
  assumes "0 < P"
  shows "delay (elapse host started t (setInterval P st)) = P
     \<and> uptime (elapse host started t (setInterval P st)) = t
     \<and> remaining (elapse host started t (setInterval P st)) = P - t mod P
     \<and> calls (elapse host started t (setInterval P st))
         = map (\<lambda>k. k * P) [1..<Suc (t div P)]
     \<and> db (elapse host started t (setInterval P st))
         = foldl (sweepAt host started) st (map (\<lambda>k. k * P) [1..<Suc (t div P)])"
proof (induction t)
  case 0
  then show ?case using assms by (simp add: setInterval_def)
next
  case (Suc t)
  let ?p = "elapse host started t (setInterval P st)"
  from Suc have d: "delay ?p = P" and u: "uptime ?p = t"
    and r: "remaining ?p = P - t mod P"
    and c: "calls ?p = map (\<lambda>k. k * P) [1..<Suc (t div P)]"
    and s: "db ?p = foldl (sweepAt host started) st (map (\<lambda>k. k * P) [1..<Suc (t div P)])"
    by simp_all
  have lt: "t mod P < P" using assms by simp
  show ?case
  proof (cases "Suc (t mod P) = P")
    case True
    then have fire: "remaining ?p \<le> 1" using r by simp
    have m: "Suc t mod P = 0" using True by (simp add: mod_Suc)
    have dv: "Suc t div P = Suc (t div P)" using m by (simp add: div_Suc)
    have "Suc t = Suc t div P * P + Suc t mod P" by simp
    then have st: "Suc t = Suc (t div P) * P" using m dv by simp
    have up: "map (\<lambda>k. k * P) [1..<Suc (Suc (t div P))]
        = map (\<lambda>k. k * P) [1..<Suc (t div P)] @ [Suc t]"
      using st by simp
    have t: "tick host started ?p
        = ?p\<lparr>remaining := P, uptime := Suc t,
              db := sweepAt host started (db ?p) (Suc t), calls := calls ?p @ [Suc t]\<rparr>"
      using fire d u by (simp add: tick_def Let_def)
    show ?thesis
      unfolding elapse.simps t dv up
      using d c s by (simp add: m del: upt_Suc)
  next
    case False
    then have nofire: "\<not> remaining ?p \<le> 1" using r lt by simp
    have m: "Suc t mod P = Suc (t mod P)" using False by (simp add: mod_Suc)
    have dv: "Suc t div P = t div P" using m by (simp add: div_Suc)
    show ?thesis
      using nofire d u r c s by (simp add: tick_def Let_def m dv del: upt_Suc)
  qed
qed

text \<open>
  C9. The period of the reaper is 86,400,000 ms. After \<open>t\<close> milliseconds the timer has
  called \<open>deleteExpiredExams\<close> exactly at the uptimes 86,400,000, 2 * 86,400,000, and so
  on up to \<open>t\<close>, and the store is the store of the start after these runs in their
  order. Before 86,400,000 ms have passed there has been no call, also not at the start,
  and the store is as it was at the start.
\<close>

theorem reaper_runs_every_period:
  "sweepInterval = 86400000
   \<and> calls (elapse host started t (startReaper st))
       = map (\<lambda>k. k * 86400000) [1..<Suc (t div 86400000)]
   \<and> db (elapse host started t (startReaper st))
       = foldl (sweepAt host started) st (calls (elapse host started t (startReaper st)))
   \<and> (t < 86400000 \<longrightarrow>
        calls (elapse host started t (startReaper st)) = []
        \<and> db (elapse host started t (startReaper st)) = st)"
proof -
  have i: "sweepInterval = 86400000"
    by (simp add: sweepInterval_def)
  have p: "(0::nat) < 86400000" by simp
  note e = elapse_state [OF p, of host started t st]
  show ?thesis
    using e by (auto simp: i startReaper_def)
qed

text \<open>
  A process started at 2024-01-10 00:00 UTC with one exam of 2024-01-01: no call in the
  first 86,399,999 ms, the first call at 86,400,000 ms, which deletes the exam, and the
  second call at 172,800,000 ms.
\<close>

theorem reaper_runs_every_period_witness:
  "(86399999::nat) < 86400000
   \<and> calls (elapse 0 1704844800000 86399999 (startReaper
        \<lparr>exams = [\<lparr>exam_id = 1, subject = ''math'', date = ''2024-01-01'',
           topics = [''ch1'']\<rparr>], next_id = 2, list_fails = False, delete_fails = [],
           create_fails = False\<rparr>)) = []
   \<and> db (elapse 0 1704844800000 86399999 (startReaper
        \<lparr>exams = [\<lparr>exam_id = 1, subject = ''math'', date = ''2024-01-01'',
           topics = [''ch1'']\<rparr>], next_id = 2, list_fails = False, delete_fails = [],
           create_fails = False\<rparr>))
       = \<lparr>exams = [\<lparr>exam_id = 1, subject = ''math'', date = ''2024-01-01'',
           topics = [''ch1'']\<rparr>], next_id = 2, list_fails = False, delete_fails = [],
           create_fails = False\<rparr>
   \<and> calls (elapse 0 1704844800000 86400000 (startReaper
        \<lparr>exams = [\<lparr>exam_id = 1, subject = ''math'', date = ''2024-01-01'',
           topics = [''ch1'']\<rparr>], next_id = 2, list_fails = False, delete_fails = [],
           create_fails = False\<rparr>)) = [86400000]
   \<and> db (elapse 0 1704844800000 86400000 (startReaper
        \<lparr>exams = [\<lparr>exam_id = 1, subject = ''math'', date = ''2024-01-01'',
           topics = [''ch1'']\<rparr>], next_id = 2, list_fails = False, delete_fails = [],
           create_fails = False\<rparr>))
       = \<lparr>exams = [], next_id = 2, list_fails = False, delete_fails = [],
           create_fails = False\<rparr>
   \<and> calls (elapse 0 1704844800000 172800000 (startReaper
        \<lparr>exams = [\<lparr>exam_id = 1, subject = ''math'', date = ''2024-01-01'',
           topics = [''ch1'']\<rparr>], next_id = 2, list_fails = False, delete_fails = [],
           create_fails = False\<rparr>)) = [86400000, 172800000]"
proof -
  let ?st = "\<lparr>exams = [\<lparr>exam_id = 1, subject = ''math'', date = ''2024-01-01'',
           topics = [''ch1'']\<rparr>], next_id = 2, list_fails = False, delete_fails = [],
           create_fails = False\<rparr>"
  have u1: "[1..<Suc (86400000 div 86400000)] = [1]"
    by (simp add: upt_rec)
  have u2: "[1..<Suc (172800000 div 86400000)] = [1, 2]"
    by (simp add: upt_rec)
  have lt: "(86399999::nat) < 86400000" by simp
  have sw: "sweepAt 0 1704844800000 ?st 86400000
      = \<lparr>exams = [], next_id = 2, list_fails = False, delete_fails = [],
           create_fails = False\<rparr>"
    by (simp add: sweepAt_def expiry_eval sweep_eval)
  from reaper_runs_every_period [of 0 1704844800000 86399999 ?st] lt
  have a: "calls (elapse 0 1704844800000 86399999 (startReaper ?st)) = []"
    and b: "db (elapse 0 1704844800000 86399999 (startReaper ?st)) = ?st"
    by blast+
  from reaper_runs_every_period [of 0 1704844800000 86400000 ?st]
  have "calls (elapse 0 1704844800000 86400000 (startReaper ?st))
      = map (\<lambda>k. k * 86400000) [1..<Suc (86400000 div 86400000)]"
    and d0: "db (elapse 0 1704844800000 86400000 (startReaper ?st))
      = foldl (sweepAt 0 1704844800000) ?st
          (calls (elapse 0 1704844800000 86400000 (startReaper ?st)))"
    by blast+
  then have c: "calls (elapse 0 1704844800000 86400000 (startReaper ?st)) = [86400000]"
    unfolding u1 by simp
  have d: "db (elapse 0 1704844800000 86400000 (startReaper ?st))
      = \<lparr>exams = [], next_id = 2, list_fails = False, delete_fails = [],
           create_fails = False\<rparr>"
    using d0 unfolding c by (simp add: sw)
  from reaper_runs_every_period [of 0 1704844800000 172800000 ?st]
  have "calls (elapse 0 1704844800000 172800000 (startReaper ?st))
      = map (\<lambda>k. k * 86400000) [1..<Suc (172800000 div 86400000)]"
    by blast
  then have e: "calls (elapse 0 1704844800000 172800000 (startReaper ?st))
      = [86400000, 172800000]"
    unfolding u2 by simp
  show ?thesis using lt a b c d e by blast
qed

subsection \<open>Creation of an exam\<close>

lemmas submit_eval = handleSubmit_def addExamResolves_def trim_def isWhiteSpace_def Let_def

lemmas post_eval = postExam_def insertExamSchema_def createExam_def Let_def

lemma postExam_persistedOk:
  assumes "\<forall>e\<in>set (exams st). persistedOk e"
  shows "\<forall>e\<in>set (exams (snd (postExam b st))). persistedOk e"
proof (cases "insertExamSchema b")
  case None
  then show ?thesis using assms by (simp add: postExam_def)
next
  case (Some d)
  then have ok: "data_topics d \<noteq> []" "parseCalendarDate (data_date d) \<noteq> None"
    by (auto simp: insertExamSchema_def split: option.splits if_splits)
  show ?thesis
    using assms Some ok
    by (auto simp: postExam_def createExam_def persistedOk_def Let_def)
qed

lemma deleteExamRoute_exams:
  "set (exams (snd (deleteExamRoute i st))) \<subseteq> set (exams st)"
  by (auto simp: deleteExamRoute_def deleteExam_def)

lemma forExams_exams:
  "forExams host clock k xs st = (st', lg, r) \<Longrightarrow> set (exams st') \<subseteq> set (exams st)"
proof (induction xs arbitrary: k st st' lg r)
  case Nil
  then show ?case by simp
next
  case (Cons e es)
  show ?case
  proof (cases "examExpired host (clock k) e \<and> exam_id e \<notin> set (delete_fails st)")
    case True
    let ?st1 = "st\<lparr>exams := filter (\<lambda>x. exam_id x \<noteq> exam_id e) (exams st)\<rparr>"
    obtain s2 l2 r2 where rec: "forExams host clock (Suc k) es ?st1 = (s2, l2, r2)"
      by (cases "forExams host clock (Suc k) es ?st1") auto
    from Cons.prems True rec have "st' = s2" by (simp add: deleteExam_def)
    with Cons.IH [OF rec] show ?thesis by auto
  next
    case False
    then show ?thesis
      using Cons.prems Cons.IH [of "Suc k" st st' lg r]
      by (auto simp: deleteExam_def split: if_splits)
  qed
qed

lemma deleteExpiredExams_exams:
  "set (exams (fst (deleteExpiredExams host clock st))) \<subseteq> set (exams st)"
proof (cases "list_fails st")
  case True
  then show ?thesis by (simp add: deleteExpiredExams_def getExams_def)
next
  case False
  obtain st' lg r where run: "forExams host clock 0 (exams st) st = (st', lg, r)"
    by (cases "forExams host clock 0 (exams st) st") auto
  have "fst (deleteExpiredExams host clock st) = st'"
    using False run by (simp add: deleteExpiredExams_def getExams_def split: option.splits)
  then show ?thesis using forExams_exams [OF run] by simp
qed

lemma handle_persistedOk:
  assumes "\<forall>e\<in>set (exams st). persistedOk e"
  shows "\<forall>e\<in>set (exams (handle host ev st)). persistedOk e"
proof (cases ev)
  case (PostExam b)
  then show ?thesis using postExam_persistedOk [OF assms] by simp
next
  case (DeleteExam i)
  then show ?thesis using assms deleteExamRoute_exams [of i st] by auto
next
  case (Reaper clock)
  then show ?thesis using assms deleteExpiredExams_exams [of host clock st] by auto
next
  case (Failures l d c)
  then show ?thesis using assms by simp
qed

lemma serve_persistedOk:
  "\<forall>e\<in>set (exams st). persistedOk e \<Longrightarrow>
     \<forall>e\<in>set (exams (serve host evs st)). persistedOk e"
proof (induction evs arbitrary: st)
  case Nil
  then show ?case by simp
next
  case (Cons ev evs)
  show ?case
    using Cons.IH [OF handle_persistedOk [OF Cons.prems]] by simp
qed

text \<open>
  C8. The creation route rejects a body in which \<open>subject\<close>, \<open>date\<close> or \<open>topics\<close> is
  missing or empty: it answers 400 and the store is unchanged. A store in which every
  exam has a non-empty list of topics and a date that parses as a calendar date keeps
  this property through every sequence of creation requests, deletion requests, runs of
  the reaper and changes of the failing calls; so does the empty store, and every
  persisted exam has the property. The handler of the form rejects a submission in which
  one of the three strings is empty, without a call of \<open>addExam\<close>, and the data that it
  passes on have a non-empty subject and date and a non-empty list of topics, none of
  them blank.
\<close>

theorem creation_rejects_missing_or_empty:
  "(body_subject b \<in> {None, Some []} \<or> body_date b \<in> {None, Some []}
      \<or> body_topics b \<in> {None, Some []}
      \<longrightarrow> postExam b st = (Status400, st))
   \<and> ((\<forall>e\<in>set (exams st). topics e \<noteq> [] \<and> parseCalendarDate (date e) \<noteq> None)
      \<longrightarrow> (\<forall>e\<in>set (exams (serve host evs st)).
            topics e \<noteq> [] \<and> parseCalendarDate (date e) \<noteq> None))
   \<and> (subj = [] \<or> dat = [] \<or> tops = []
      \<longrightarrow> handleSubmit addExam subj dat tops = (FillAllFields, None))
   \<and> (handleSubmit addExam subj dat tops = (t, Some d)
      \<longrightarrow> data_subject d \<noteq> [] \<and> data_date d \<noteq> [] \<and> data_topics d \<noteq> []
          \<and> (\<forall>x\<in>set (data_topics d). trim x \<noteq> []))"
proof (intro conjI impI)
  assume "body_subject b \<in> {None, Some []} \<or> body_date b \<in> {None, Some []}
      \<or> body_topics b \<in> {None, Some []}"
  then have "insertExamSchema b = None"
    by (auto simp: insertExamSchema_def split: option.splits)
  then show "postExam b st = (Status400, st)"
    by (simp add: postExam_def)
next
  assume "\<forall>e\<in>set (exams st). topics e \<noteq> [] \<and> parseCalendarDate (date e) \<noteq> None"
  then have "\<forall>e\<in>set (exams st). persistedOk e" by (simp add: persistedOk_def)
  from serve_persistedOk [OF this, of host evs]
  show "\<forall>e\<in>set (exams (serve host evs st)).
           topics e \<noteq> [] \<and> parseCalendarDate (date e) \<noteq> None"
    by (simp add: persistedOk_def)
next
  assume "subj = [] \<or> dat = [] \<or> tops = []"
  then show "handleSubmit addExam subj dat tops = (FillAllFields, None)"
    by (auto simp: handleSubmit_def)
next
  assume a: "handleSubmit addExam subj dat tops = (t, Some d)"
  let ?ts = "filter (\<lambda>topic. trim topic \<noteq> []) (split (CHR 0x0A) tops)"
  from a have d: "d = \<lparr>data_subject = subj, data_date = dat, data_topics = ?ts\<rparr>"
    and ne: "subj \<noteq> []" "dat \<noteq> []" "?ts \<noteq> []"
    by (auto simp: handleSubmit_def Let_def split: if_splits)
  from d ne show "data_subject d \<noteq> []" "data_date d \<noteq> []" "data_topics d \<noteq> []"
    "\<forall>x\<in>set (data_topics d). trim x \<noteq> []"
    by simp_all
qed

text \<open>
  A body with an empty date; then three creation requests to the empty store, of which
  the one with a date that is no calendar date and the one without topics are rejected;
  and the form with an empty and with a filled date.
\<close>

theorem creation_rejects_missing_or_empty_witness:
  "body_date \<lparr>body_subject = Some ''math'', body_date = Some [],
      body_topics = Some [''ch1'']\<rparr> \<in> {None, Some []}
   \<and> postExam \<lparr>body_subject = Some ''math'', body_date = Some [],
        body_topics = Some [''ch1'']\<rparr>
        \<lparr>exams = [], next_id = 1, list_fails = False, delete_fails = [],
           create_fails = False\<rparr>
     = (Status400, \<lparr>exams = [], next_id = 1, list_fails = False, delete_fails = [],
           create_fails = False\<rparr>)
   \<and> serve 0
        [PostExam \<lparr>body_subject = Some ''math'', body_date = Some ''2024-01-10'',
           body_topics = Some [''ch1'']\<rparr>,
         PostExam \<lparr>body_subject = Some ''math'', body_date = Some ''not-a-date'',
           body_topics = Some [''ch2'']\<rparr>,
         PostExam \<lparr>body_subject = Some ''math'', body_date = Some ''2024-01-15'',
           body_topics = Some []\<rparr>]
        \<lparr>exams = [], next_id = 1, list_fails = False, delete_fails = [],
           create_fails = False\<rparr>
     = \<lparr>exams = [\<lparr>exam_id = 1, subject = ''math'', date = ''2024-01-10'',
           topics = [''ch1'']\<rparr>], next_id = 2, list_fails = False, delete_fails = [],
           create_fails = False\<rparr>
   \<and> topics \<lparr>exam_id = 1, subject = ''math'', date = ''2024-01-10'',
           topics = [''ch1'']\<rparr> \<noteq> []
   \<and> parseCalendarDate (date \<lparr>exam_id = 1, subject = ''math'', date = ''2024-01-10'',
           topics = [''ch1'']\<rparr>) \<noteq> None
   \<and> handleSubmit addExamResolves ''math'' [] ''ch1'' = (FillAllFields, None)
   \<and> handleSubmit addExamResolves ''math'' ''2024-01-10'' ''ch1''
     = (AddedSuccessfully, Some \<lparr>data_subject = ''math'', data_date = ''2024-01-10'',
          data_topics = [''ch1'']\<rparr>)
   \<and> data_topics \<lparr>data_subject = ''math'', data_date = ''2024-01-10'',
          data_topics = [''ch1'']\<rparr> \<noteq> []"
proof -
  let ?st = "\<lparr>exams = [], next_id = 1, list_fails = False, delete_fails = [],
           create_fails = False\<rparr>"
  let ?b0 = "\<lparr>body_subject = Some ''math'', body_date = Some [],
      body_topics = Some [''ch1'']\<rparr>"
  let ?evs = "[PostExam \<lparr>body_subject = Some ''math'', body_date = Some ''2024-01-10'',
           body_topics = Some [''ch1'']\<rparr>,
         PostExam \<lparr>body_subject = Some ''math'', body_date = Some ''not-a-date'',
           body_topics = Some [''ch2'']\<rparr>,
         PostExam \<lparr>body_subject = Some ''math'', body_date = Some ''2024-01-15'',
           body_topics = Some []\<rparr>]"
  let ?e = "\<lparr>exam_id = 1, subject = ''math'', date = ''2024-01-10'', topics = [''ch1'']\<rparr>"
  let ?st' = "\<lparr>exams = [?e], next_id = 2, list_fails = False, delete_fails = [],
           create_fails = False\<rparr>"
  let ?d = "\<lparr>data_subject = ''math'', data_date = ''2024-01-10'',
          data_topics = [''ch1'']\<rparr>"
  have h1: "body_date ?b0 \<in> {None, Some []}"
    by simp
  have h2: "\<forall>e\<in>set (exams ?st). topics e \<noteq> [] \<and> parseCalendarDate (date e) \<noteq> None"
    by simp
  have h3: "serve 0 ?evs ?st = ?st'"
    by (simp add: post_eval parseCalendarDate.simps number4_def number2_def digit_def
        validateDate_def daysInMonth_def isLeapYearIndex_def daysFromCivil_def)
  have h4: "handleSubmit addExamResolves ''math'' ''2024-01-10'' ''ch1''
      = (AddedSuccessfully, Some ?d)"
    by (simp add: submit_eval)
  note a = creation_rejects_missing_or_empty [of ?b0 ?st 0 ?evs "''math''" "[]" "''ch1''"
      addExamResolves AddedSuccessfully ?d]
  note b = creation_rejects_missing_or_empty [of ?b0 ?st 0 ?evs "''math''" "''2024-01-10''"
      "''ch1''" addExamResolves AddedSuccessfully ?d]
  from a h1 have c1: "postExam ?b0 ?st = (Status400, ?st)"
    by blast
  from a h2 have "\<forall>e\<in>set (exams (serve 0 ?evs ?st)).
      topics e \<noteq> [] \<and> parseCalendarDate (date e) \<noteq> None"
    by blast
  then have c2: "topics ?e \<noteq> []" "parseCalendarDate (date ?e) \<noteq> None"
    unfolding h3 by simp_all
  from a have c3: "handleSubmit addExamResolves ''math'' [] ''ch1'' = (FillAllFields, None)"
    by blast
  from b h4 have c4: "data_topics ?d \<noteq> []"
    by blast
  show ?thesis
    using h1 h3 h4 c1 c2 c3 c4 by blast
qed

end
